theory Spec2Isabelle
  imports Main
begin

section \<open>The stopwatch of the CYD planter sensor\<close>

text \<open>
  A shallow embedding of \<^verbatim>\<open>src/plantersensor/deploy/stopwatch.py\<close>, the class
  \<^verbatim>\<open>Stopwatch\<close>. Python integers are unbounded, so every number is an \<open>int\<close>;
  \<open>div\<close> and \<open>mod\<close> on \<open>int\<close> round towards minus infinity, as Python's
  \<^verbatim>\<open>//\<close> and \<^verbatim>\<open>%\<close> do.
\<close>

subsection \<open>The platform clock\<close>

text \<open>
  The class reads the clock with \<^verbatim>\<open>time.ticks_ms()\<close> and subtracts two readings with
  \<^verbatim>\<open>time.ticks_diff(end, start)\<close>. Both belong to the MicroPython platform, not to the
  repository. Every method below therefore takes the subtraction as its parameter \<open>td\<close>
  and the reading that \<^verbatim>\<open>time.ticks_ms()\<close> returns during the call as its parameter
  \<open>now\<close>.
\<close>

type_synonym tick_diff = "int \<Rightarrow> int \<Rightarrow> int"

text \<open>
  The desktop stand-in of \<^verbatim>\<open>src/plantersensor/test_stopwatch.py\<close>
  (\<^verbatim>\<open>MockTime.ticks_diff\<close>), which the test runner and the demo install in the
  \<^verbatim>\<open>time\<close> module: \<^verbatim>\<open>return end - start\<close>.
\<close>

definition MockTime_ticks_diff :: tick_diff where
  "MockTime_ticks_diff end' start' = end' - start'"

text \<open>
  Modelled from the spec: the platform helper \<^verbatim>\<open>time.ticks_diff\<close>, which is missing
  from the sources. The spec asks for "modular (wrapping) subtraction over the counter's
  bit width"; \<open>M\<close> is the boundary at which the counter wraps, so readings lie in
  \<open>{0..<M}\<close>.
\<close>

definition ticks_diff :: "int \<Rightarrow> tick_diff" where
  "ticks_diff M end' start' = (end' - start') mod M"

subsection \<open>Formatting integers as Python does\<close>

text \<open>The decimal digits of a natural number, most significant first.\<close>

fun str_nat :: "nat \<Rightarrow> string" where
  "str_nat n = (if n < 10 then [''0123456789'' ! n]
                else str_nat (n div 10) @ [''0123456789'' ! (n mod 10)])"

declare str_nat.simps [simp del]

text \<open>\<^verbatim>\<open>f"{i}"\<close>: the decimal digits, after a minus sign when \<open>i\<close> is negative.\<close>

definition py_str :: "int \<Rightarrow> string" where
  "py_str i = (if i < 0 then ''-'' @ str_nat (nat (- i)) else str_nat (nat i))"

text \<open>
  \<^verbatim>\<open>f"{i:0wd}"\<close>: the sign first, then zeros until sign and digits together fill
  \<open>w\<close> characters, then the digits; a number that is already wider is not cut.
\<close>

definition fmt_0d :: "nat \<Rightarrow> int \<Rightarrow> string" where
  "fmt_0d w i =
     (let sign = (if i < 0 then ''-'' else []);
          ds = str_nat (nat \<bar>i\<bar>)
      in sign @ replicate (w - length sign - length ds) (CHR ''0'') @ ds)"

subsection \<open>The class\<close>

text \<open>The attributes that \<^verbatim>\<open>__init__\<close> creates.\<close>

record stopwatch =
  start_time :: int
  total_elapsed :: int
  running :: bool

definition Stopwatch_init :: stopwatch where
  "Stopwatch_init = \<lparr>start_time = 0, total_elapsed = 0, running = False\<rparr>"

text \<open>
  The three methods that assign to attributes return the object after the call together
  with the lines they print, in order.
\<close>

definition start :: "int \<Rightarrow> stopwatch \<Rightarrow> stopwatch \<times> string list" where
  "start now self =
     (if \<not> running self
      then (self\<lparr>start_time := now, running := True\<rparr>, [''Stopwatch started''])
      else (self, []))"

definition stop :: "tick_diff \<Rightarrow> int \<Rightarrow> stopwatch \<Rightarrow> stopwatch \<times> string list" where
  "stop td now self =
     (if running self
      then (let current_time = now;
                elapsed = td current_time (start_time self)
            in (self\<lparr>total_elapsed := total_elapsed self + elapsed, running := False\<rparr>,
                [''Stopwatch stopped. Session time: '' @ py_str elapsed @ ''ms'']))
      else (self, []))"

definition reset :: "stopwatch \<Rightarrow> stopwatch \<times> string list" where
  "reset self =
     (self\<lparr>start_time := 0, total_elapsed := 0, running := False\<rparr>, [''Stopwatch reset''])"

text \<open>
  The remaining methods assign to no attribute and print nothing: they are functions of
  the object (and of the clock) alone.
\<close>

definition get_elapsed_time :: "tick_diff \<Rightarrow> int \<Rightarrow> stopwatch \<Rightarrow> int" where
  "get_elapsed_time td now self =
     (if running self
      then (let current_time = now;
                current_session = td current_time (start_time self)
            in total_elapsed self + current_session)
      else total_elapsed self)"

definition is_running :: "stopwatch \<Rightarrow> bool" where
  "is_running self = running self"

definition get_formatted_time :: "tick_diff \<Rightarrow> int \<Rightarrow> stopwatch \<Rightarrow> string \<Rightarrow> string" where
  "get_formatted_time td now self format_type =
     (let elapsed = get_elapsed_time td now self;
          hours = elapsed div 3600000;
          minutes = (elapsed mod 3600000) div 60000;
          seconds = (elapsed mod 60000) div 1000;
          milliseconds = elapsed mod 1000
      in if format_type = ''full'' then
           fmt_0d 2 hours @ '':'' @ fmt_0d 2 minutes @ '':'' @ fmt_0d 2 seconds
             @ ''.'' @ fmt_0d 3 milliseconds
         else if format_type = ''short'' then
           (if hours > 0
            then fmt_0d 2 hours @ '':'' @ fmt_0d 2 minutes @ '':'' @ fmt_0d 2 seconds
            else fmt_0d 2 minutes @ '':'' @ fmt_0d 2 seconds)
         else if format_type = ''minimal'' then
           (if hours > 0 then py_str hours @ ''h '' @ py_str minutes @ ''m''
            else if minutes > 0 then py_str minutes @ ''m '' @ py_str seconds @ ''s''
            else py_str seconds @ ''.'' @ fmt_0d 3 milliseconds @ ''s'')
         else py_str elapsed @ ''ms'')"

text \<open>
  The dictionary of \<^verbatim>\<open>get_session_stats\<close>, as the list of its items in the order of
  the literal. The method reads the clock twice while the stopwatch runs: once for its own
  \<^verbatim>\<open>elapsed\<close> (\<open>now\<close>) and once more inside \<^verbatim>\<open>get_formatted_time()\<close>
  (\<open>now2\<close>), which is called with its default \<^verbatim>\<open>format_type='full'\<close>.
\<close>

datatype pyval = PyInt int | PyBool bool | PyStr string

definition get_session_stats ::
    "tick_diff \<Rightarrow> int \<Rightarrow> int \<Rightarrow> stopwatch \<Rightarrow> (string \<times> pyval) list" where
  "get_session_stats td now now2 self =
     (let elapsed = get_elapsed_time td now self
      in [(''total_ms'', PyInt elapsed),
          (''hours'', PyInt (elapsed div 3600000)),
          (''minutes'', PyInt ((elapsed mod 3600000) div 60000)),
          (''seconds'', PyInt ((elapsed mod 60000) div 1000)),
          (''milliseconds'', PyInt (elapsed mod 1000)),
          (''is_running'', PyBool (running self)),
          (''formatted'', PyStr (get_formatted_time td now2 self ''full''))])"

subsection \<open>Runs of start and stop calls\<close>

text \<open>
  A run is a list of calls, each with the clock reading at the moment of the call.
  \<open>states\<close> lists the object before the first call and after every call.
\<close>

datatype call = Start | Stop

fun exec :: "tick_diff \<Rightarrow> call \<times> int \<Rightarrow> stopwatch \<Rightarrow> stopwatch" where
  "exec td (Start, now) self = fst (start now self)"
| "exec td (Stop, now) self = fst (stop td now self)"

fun states :: "tick_diff \<Rightarrow> stopwatch \<Rightarrow> (call \<times> int) list \<Rightarrow> stopwatch list" where
  "states td self [] = [self]"
| "states td self (c # cs) = self # states td (exec td c self) cs"

text \<open>
  The clock does not run backwards, as the tick difference \<open>td\<close> measures it: from any
  reading of the list to any later one the difference is not negative. Readings of a
  counter that wrapped in between are admitted whenever \<open>td\<close> accounts for the wrap.
\<close>

definition nondecreasing_clock :: "tick_diff \<Rightarrow> int list \<Rightarrow> bool" where
  "nondecreasing_clock td ts = sorted_wrt (\<lambda>earlier later. 0 \<le> td later earlier) ts"

text \<open>
  The invariant of a run: the segment that is open, if any, has a non-negative length at
  every reading still to come.
\<close>

definition segment_ok :: "tick_diff \<Rightarrow> stopwatch \<Rightarrow> int list \<Rightarrow> bool" where
  "segment_ok td self ts = (running self \<longrightarrow> (\<forall>u \<in> set ts. 0 \<le> td u (start_time self)))"

section \<open>Properties\<close>

subsection \<open>What the methods compute\<close>

lemma fst_start:
  "fst (start now self) =
     (if running self then self else self\<lparr>start_time := now, running := True\<rparr>)"
  by (simp add: start_def)

lemma fst_stop:
  "fst (stop td now self) =
     (if running self
      then self\<lparr>total_elapsed := total_elapsed self + td now (start_time self),
                running := False\<rparr>
      else self)"
  by (simp add: stop_def Let_def)

lemma get_elapsed_time_eq:
  "get_elapsed_time td now self =
     (if running self then total_elapsed self + td now (start_time self)
      else total_elapsed self)"
  by (simp add: get_elapsed_time_def Let_def)

lemma fmt_0d_values:
  "fmt_0d 2 0 = ''00''" "fmt_0d 2 1 = ''01''" "fmt_0d 2 5 = ''05''" "fmt_0d 2 25 = ''25''"
  "fmt_0d 3 0 = ''000''" "fmt_0d 3 123 = ''123''" "fmt_0d 3 700 = ''700''"
  by code_simp+

lemma py_str_values: "py_str 1 = ''1''" "py_str 700 = ''700''"
  by code_simp+

subsection \<open>Wraparound\<close>

lemma pow2_above_10:
  assumes "(10::int) \<le> 2 ^ w"
  shows "(15::int) < 2 ^ w"
proof -
  have "4 \<le> w"
  proof (rule ccontr)
    assume "\<not> 4 \<le> w"
    then have "w \<le> 3" by simp
    then have "(2::int) ^ w \<le> 2 ^ 3" by (rule power_increasing) simp
    with assms show False by simp
  qed
  then have "(2::int) ^ 4 \<le> 2 ^ w" by (rule power_increasing) simp
  then show ?thesis by simp
qed

text \<open>
  C1: a counter of \<open>w\<close> bits wraps at \<open>M = 2 ^ w\<close>; \<open>M - 10\<close> is one of its readings, so
  \<open>10 \<le> M\<close>. A segment opened at the reading \<open>M - 10\<close> and measured at the reading 5,
  after the counter has wrapped once, has the length 15 under the modular tick
  difference: this is what \<^verbatim>\<open>get_elapsed_time()\<close> adds to the accumulated time while
  the stopwatch runs and what \<^verbatim>\<open>stop()\<close> accumulates. The length is neither negative
  nor of the size of \<open>M\<close>.
\<close>

theorem wraparound_duration:
  assumes "M = 2 ^ w" and "10 \<le> M" and "running self" and "start_time self = M - 10"
  shows "ticks_diff M 5 (start_time self) = 15
       \<and> get_elapsed_time (ticks_diff M) 5 self = total_elapsed self + 15
       \<and> total_elapsed (fst (stop (ticks_diff M) 5 self)) = total_elapsed self + 15"
proof -
  have big: "15 < M" using assms(1,2) pow2_above_10 by simp
  have "ticks_diff M 5 (M - 10) = (15 - M) mod M" by (simp add: ticks_diff_def)
  also have "\<dots> = 15 mod M" by (rule minus_mod_self2)
  also have "\<dots> = 15" using big by simp
  finally have d: "ticks_diff M 5 (start_time self) = 15" using assms(4) by simp
  show ?thesis using d assms(3) by (simp add: get_elapsed_time_eq fst_stop)
qed

theorem wraparound_duration_witness:
  "(1024::int) = 2 ^ 10 \<and> (10::int) \<le> 1024
   \<and> running \<lparr>start_time = 1014, total_elapsed = 100, running = True\<rparr>
   \<and> start_time \<lparr>start_time = 1014, total_elapsed = 100, running = True\<rparr> = 1024 - 10
   \<and> ticks_diff 1024 5 1014 = 15
   \<and> get_elapsed_time (ticks_diff 1024) 5
        \<lparr>start_time = 1014, total_elapsed = 100, running = True\<rparr> = 115
   \<and> total_elapsed (fst (stop (ticks_diff 1024) 5
        \<lparr>start_time = 1014, total_elapsed = 100, running = True\<rparr>)) = 115"
  using wraparound_duration
    [of 1024 10 "\<lparr>start_time = 1014, total_elapsed = 100, running = True\<rparr>"]
  by simp

subsection \<open>Stop\<close>

text \<open>
  C2, as the spec states it, fails: \<^verbatim>\<open>stop()\<close> has no clamp. With the tick difference
  of the desktop stand-in, a segment opened at the reading 10 and closed at the reading 5
  takes 5 ms off the accumulated time.
\<close>

theorem stop_not_clamped:
  "total_elapsed (fst (stop MockTime_ticks_diff 5
      \<lparr>start_time = 10, total_elapsed = 0, running = True\<rparr>))
     < total_elapsed \<lparr>start_time = 10, total_elapsed = 0, running = True\<rparr>"
  by (simp add: fst_stop MockTime_ticks_diff_def)

text \<open>
  C2, amended: for every running state, \<^verbatim>\<open>stop()\<close> adds the tick difference between
  the current reading and \<^verbatim>\<open>start_time\<close> to \<^verbatim>\<open>total_elapsed\<close> as the platform returns
  it, without clamping; \<^verbatim>\<open>total_elapsed\<close> does not decrease across the call exactly
  when that tick difference is not negative.
\<close>

theorem stop_adds_tick_diff:
  assumes "running self"
  shows "total_elapsed (fst (stop td now self)) = total_elapsed self + td now (start_time self)
       \<and> (total_elapsed self \<le> total_elapsed (fst (stop td now self))
            \<longleftrightarrow> 0 \<le> td now (start_time self))"
  using assms by (simp add: fst_stop)

theorem stop_adds_tick_diff_witness:
  "running \<lparr>start_time = 100, total_elapsed = 40, running = True\<rparr>
   \<and> total_elapsed (fst (stop (ticks_diff 1024) 350
        \<lparr>start_time = 100, total_elapsed = 40, running = True\<rparr>)) = 290
   \<and> (40 \<le> total_elapsed (fst (stop (ticks_diff 1024) 350
        \<lparr>start_time = 100, total_elapsed = 40, running = True\<rparr>))
        \<longleftrightarrow> 0 \<le> ticks_diff 1024 350 100)"
  using stop_adds_tick_diff
    [of "\<lparr>start_time = 100, total_elapsed = 40, running = True\<rparr>" "ticks_diff 1024" 350]
  by (simp add: ticks_diff_def)

text \<open>
  C6: a stopwatch that is not running is untouched by \<^verbatim>\<open>stop()\<close>: the object after
  the call is the object before it (\<^verbatim>\<open>total_elapsed\<close> and \<^verbatim>\<open>running\<close> included), and
  nothing is printed.
\<close>

theorem stop_when_stopped:
  assumes "\<not> running self"
  shows "stop td now self = (self, [])"
  using assms by (simp add: stop_def)

theorem stop_when_stopped_witness:
  "\<not> running \<lparr>start_time = 3, total_elapsed = 42, running = False\<rparr>
   \<and> stop MockTime_ticks_diff 99 \<lparr>start_time = 3, total_elapsed = 42, running = False\<rparr>
       = (\<lparr>start_time = 3, total_elapsed = 42, running = False\<rparr>, [])"
  using stop_when_stopped
    [of "\<lparr>start_time = 3, total_elapsed = 42, running = False\<rparr>" MockTime_ticks_diff 99]
  by simp

subsection \<open>Elapsed time\<close>

text \<open>
  C3: \<^verbatim>\<open>get_elapsed_time()\<close> returns \<^verbatim>\<open>total_elapsed\<close> when the stopwatch is not
  running, and \<^verbatim>\<open>total_elapsed\<close> plus the tick difference between the current reading
  and \<^verbatim>\<open>start_time\<close> when it is. The method is a query: it assigns to no attribute and
  prints nothing, so its embedding has the value as its only result.
\<close>

theorem elapsed_query:
  "get_elapsed_time td now self =
     (if running self then total_elapsed self + td now (start_time self)
      else total_elapsed self)"
  by (simp add: get_elapsed_time_def Let_def)

subsection \<open>Reset\<close>

text \<open>
  C4: whatever the object was (running or stopped, any accumulated value, under any
  clock), after \<^verbatim>\<open>reset()\<close> the elapsed time is 0 and the stopwatch is not running. The
  open segment is dropped: the object is the freshly created one, and nothing of the old
  \<^verbatim>\<open>start_time\<close> or \<^verbatim>\<open>total_elapsed\<close> survives.
\<close>

theorem reset_clears:
  "get_elapsed_time td now (fst (reset self)) = 0
   \<and> is_running (fst (reset self)) = False
   \<and> fst (reset self) = Stopwatch_init"
  by (simp add: reset_def get_elapsed_time_def is_running_def Stopwatch_init_def)

subsection \<open>Start\<close>

text \<open>
  C5: from every state, a second \<^verbatim>\<open>start()\<close> right after a first one returns the
  object of the first call and prints nothing, whatever the clock reads by then; so
  \<^verbatim>\<open>start_time\<close> after two calls is \<^verbatim>\<open>start_time\<close> after one. On a stopwatch that is
  already running, \<^verbatim>\<open>start()\<close> changes no attribute.
\<close>

theorem start_idempotent:
  "start now2 (fst (start now self)) = (fst (start now self), [])
   \<and> start_time (fst (start now2 (fst (start now self)))) = start_time (fst (start now self))
   \<and> (running self \<longrightarrow> start now self = (self, []))"
  by (simp add: start_def)

theorem start_idempotent_witness:
  "running \<lparr>start_time = 7, total_elapsed = 20, running = True\<rparr>
   \<and> start 900 \<lparr>start_time = 7, total_elapsed = 20, running = True\<rparr>
       = (\<lparr>start_time = 7, total_elapsed = 20, running = True\<rparr>, [])
   \<and> start_time (fst (start 950 (fst (start 900 Stopwatch_init)))) = 900"
  using start_idempotent [of 900 900 "\<lparr>start_time = 7, total_elapsed = 20, running = True\<rparr>"]
    start_idempotent [of 950 900 Stopwatch_init]
  by (simp add: fst_start Stopwatch_init_def)

subsection \<open>Formatting\<close>

text \<open>
  C7: when the elapsed time is 3,665,123 ms, \<^verbatim>\<open>get_formatted_time('full')\<close> is
  "01:01:05.123", \<^verbatim>\<open>get_formatted_time('short')\<close> is "01:01:05" and
  \<^verbatim>\<open>get_formatted_time('minimal')\<close> is "1h 1m"; when it is 90,061,000 ms,
  \<^verbatim>\<open>get_formatted_time('full')\<close> is "25:01:01.000": the hours are not reduced modulo 24.
\<close>

theorem formatted_examples:
  assumes "get_elapsed_time td now self = 3665123"
      and "get_elapsed_time td' now' self' = 90061000"
  shows "get_formatted_time td now self ''full'' = ''01:01:05.123''
       \<and> get_formatted_time td now self ''short'' = ''01:01:05''
       \<and> get_formatted_time td now self ''minimal'' = ''1h 1m''
       \<and> get_formatted_time td' now' self' ''full'' = ''25:01:01.000''"
  using assms by (simp add: get_formatted_time_def fmt_0d_values py_str_values)

theorem formatted_examples_witness:
  "get_elapsed_time MockTime_ticks_diff 0
     \<lparr>start_time = 0, total_elapsed = 3665123, running = False\<rparr> = 3665123
   \<and> get_elapsed_time MockTime_ticks_diff 90061000
     \<lparr>start_time = 0, total_elapsed = 0, running = True\<rparr> = 90061000
   \<and> get_formatted_time MockTime_ticks_diff 0
     \<lparr>start_time = 0, total_elapsed = 3665123, running = False\<rparr> ''full'' = ''01:01:05.123''
   \<and> get_formatted_time MockTime_ticks_diff 0
     \<lparr>start_time = 0, total_elapsed = 3665123, running = False\<rparr> ''short'' = ''01:01:05''
   \<and> get_formatted_time MockTime_ticks_diff 0
     \<lparr>start_time = 0, total_elapsed = 3665123, running = False\<rparr> ''minimal'' = ''1h 1m''
   \<and> get_formatted_time MockTime_ticks_diff 90061000
     \<lparr>start_time = 0, total_elapsed = 0, running = True\<rparr> ''full'' = ''25:01:01.000''"
  using formatted_examples
    [of MockTime_ticks_diff 0 "\<lparr>start_time = 0, total_elapsed = 3665123, running = False\<rparr>"
        MockTime_ticks_diff 90061000 "\<lparr>start_time = 0, total_elapsed = 0, running = True\<rparr>"]
  by (simp add: get_elapsed_time_eq MockTime_ticks_diff_def)

text \<open>
  C10: for every state and every \<^verbatim>\<open>format_type\<close> other than 'full', 'short' and
  'minimal', \<^verbatim>\<open>get_formatted_time\<close> returns the elapsed milliseconds in decimal
  followed by "ms". No branch of the method raises.
\<close>

theorem fallback_format:
  assumes "format_type \<noteq> ''full''" and "format_type \<noteq> ''short''"
      and "format_type \<noteq> ''minimal''"
  shows "get_formatted_time td now self format_type
           = py_str (get_elapsed_time td now self) @ ''ms''"
  using assms by (simp add: get_formatted_time_def Let_def)

theorem fallback_format_witness:
  "''raw'' \<noteq> ''full'' \<and> ''raw'' \<noteq> ''short'' \<and> ''raw'' \<noteq> ''minimal''
   \<and> get_formatted_time MockTime_ticks_diff 0
        \<lparr>start_time = 0, total_elapsed = 700, running = False\<rparr> ''raw'' = ''700ms''"
  using fallback_format
    [of "''raw''" MockTime_ticks_diff 0 "\<lparr>start_time = 0, total_elapsed = 700, running = False\<rparr>"]
  by (simp add: get_elapsed_time_eq py_str_values)

subsection \<open>A session\<close>

text \<open>
  C8: on a fresh stopwatch and a clock whose tick difference is the plain difference on
  the readings involved: \<^verbatim>\<open>start()\<close> at the reading 0; \<^verbatim>\<open>get_elapsed_time()\<close> at 500
  is 500 while running; \<^verbatim>\<open>stop()\<close> at 500 leaves \<^verbatim>\<open>total_elapsed\<close> = 500;
  \<^verbatim>\<open>start()\<close> at 700 and \<^verbatim>\<open>stop()\<close> at 900 leave \<^verbatim>\<open>total_elapsed\<close> = 700. Then
  \<^verbatim>\<open>get_session_stats()\<close>, at any reading, has total_ms 700, hours 0, minutes 0,
  seconds 0, milliseconds 700 and is_running False (and formatted "00:00:00.700").
\<close>

theorem session_scenario:
  assumes "td 500 0 = 500" and "td 900 700 = 200"
  shows "let s1 = fst (start 0 Stopwatch_init);
             s2 = fst (stop td 500 s1);
             s3 = fst (start 700 s2);
             s4 = fst (stop td 900 s3)
         in get_elapsed_time td 500 s1 = 500
          \<and> total_elapsed s2 = 500
          \<and> total_elapsed s4 = 700
          \<and> get_session_stats td now now2 s4 =
              [(''total_ms'', PyInt 700), (''hours'', PyInt 0), (''minutes'', PyInt 0),
               (''seconds'', PyInt 0), (''milliseconds'', PyInt 700),
               (''is_running'', PyBool False), (''formatted'', PyStr ''00:00:00.700'')]"
  using assms
  by (simp add: Let_def fst_start fst_stop get_elapsed_time_eq Stopwatch_init_def
      get_session_stats_def get_formatted_time_def fmt_0d_values)

theorem session_scenario_witness:
  "MockTime_ticks_diff 500 0 = 500 \<and> MockTime_ticks_diff 900 700 = 200
   \<and> (let s1 = fst (start 0 Stopwatch_init);
           s2 = fst (stop MockTime_ticks_diff 500 s1);
           s3 = fst (start 700 s2);
           s4 = fst (stop MockTime_ticks_diff 900 s3)
       in get_elapsed_time MockTime_ticks_diff 500 s1 = 500
        \<and> total_elapsed s2 = 500
        \<and> total_elapsed s4 = 700
        \<and> get_session_stats MockTime_ticks_diff 1000 1001 s4 =
            [(''total_ms'', PyInt 700), (''hours'', PyInt 0), (''minutes'', PyInt 0),
             (''seconds'', PyInt 0), (''milliseconds'', PyInt 700),
             (''is_running'', PyBool False), (''formatted'', PyStr ''00:00:00.700'')])"
proof -
  have h1: "MockTime_ticks_diff 500 0 = 500" by (simp add: MockTime_ticks_diff_def)
  have h2: "MockTime_ticks_diff 900 700 = 200" by (simp add: MockTime_ticks_diff_def)
  show ?thesis
    using h1 h2 session_scenario [OF h1 h2, of 1000 1001] by simp
qed

subsection \<open>Monotonicity\<close>

lemma exec_total_elapsed:
  assumes "segment_ok td self (snd c # ts)"
  shows "total_elapsed self \<le> total_elapsed (exec td c self)"
proof (cases c)
  case (Pair k now)
  show ?thesis
  proof (cases k)
    case Start
    with Pair show ?thesis by (simp add: fst_start)
  next
    case Stop
    with Pair assms show ?thesis by (simp add: fst_stop segment_ok_def)
  qed
qed

lemma exec_segment_ok:
  assumes "segment_ok td self (snd c # ts)" and "\<forall>u \<in> set ts. 0 \<le> td u (snd c)"
  shows "segment_ok td (exec td c self) ts"
proof (cases c)
  case (Pair k now)
  show ?thesis
  proof (cases k)
    case Start
    with Pair assms show ?thesis by (simp add: fst_start segment_ok_def)
  next
    case Stop
    with Pair show ?thesis by (simp add: fst_stop segment_ok_def)
  qed
qed

lemma length_states: "length (states td self cs) = Suc (length cs)"
  by (induction cs arbitrary: self) simp_all

lemma states_from_first:
  assumes "nondecreasing_clock td (map snd cs)"
      and "segment_ok td self (map snd cs)"
      and "j < length (states td self cs)"
  shows "total_elapsed self \<le> total_elapsed (states td self cs ! j)"
  using assms
proof (induction cs arbitrary: self j)
  case Nil
  then show ?case by simp
next
  case (Cons c cs)
  show ?case
  proof (cases j)
    case 0
    then show ?thesis by simp
  next
    case (Suc j')
    have ok: "segment_ok td self (snd c # map snd cs)" using Cons.prems(2) by simp
    have later: "\<forall>u \<in> set (map snd cs). 0 \<le> td u (snd c)"
      using Cons.prems(1) by (simp add: nondecreasing_clock_def)
    have step: "total_elapsed self \<le> total_elapsed (exec td c self)"
      using ok by (rule exec_total_elapsed)
    have "total_elapsed (exec td c self) \<le> total_elapsed (states td (exec td c self) cs ! j')"
    proof (rule Cons.IH)
      show "nondecreasing_clock td (map snd cs)"
        using Cons.prems(1) by (simp add: nondecreasing_clock_def)
      show "segment_ok td (exec td c self) (map snd cs)"
        using ok later by (rule exec_segment_ok)
      show "j' < length (states td (exec td c self) cs)" using Cons.prems(3) Suc by simp
    qed
    with step Suc show ?thesis by simp
  qed
qed

lemma states_monotone:
  assumes "nondecreasing_clock td (map snd cs)"
      and "segment_ok td self (map snd cs)"
      and "i \<le> j" and "j < length (states td self cs)"
  shows "total_elapsed (states td self cs ! i) \<le> total_elapsed (states td self cs ! j)"
  using assms
proof (induction cs arbitrary: self i j)
  case Nil
  then show ?case by simp
next
  case (Cons c cs)
  show ?case
  proof (cases i)
    case 0
    have "total_elapsed self \<le> total_elapsed (states td self (c # cs) ! j)"
      using Cons.prems(1,2,4) by (rule states_from_first)
    with 0 show ?thesis by simp
  next
    case (Suc i')
    then obtain j' where j: "j = Suc j'" using Cons.prems(3) by (cases j) simp_all
    have ok: "segment_ok td self (snd c # map snd cs)" using Cons.prems(2) by simp
    have later: "\<forall>u \<in> set (map snd cs). 0 \<le> td u (snd c)"
      using Cons.prems(1) by (simp add: nondecreasing_clock_def)
    have "total_elapsed (states td (exec td c self) cs ! i')
            \<le> total_elapsed (states td (exec td c self) cs ! j')"
    proof (rule Cons.IH)
      show "nondecreasing_clock td (map snd cs)"
        using Cons.prems(1) by (simp add: nondecreasing_clock_def)
      show "segment_ok td (exec td c self) (map snd cs)"
        using ok later by (rule exec_segment_ok)
      show "i' \<le> j'" using Cons.prems(3) Suc j by simp
      show "j' < length (states td (exec td c self) cs)" using Cons.prems(4) j by simp
    qed
    with Suc j show ?thesis by simp
  qed
qed

text \<open>
  Two clocks that do not run backwards: a counter that wraps at \<open>M\<close>, read with the
  modular tick difference, on any readings at all; and the desktop stand-in on readings
  in ascending order.
\<close>

lemma ticks_diff_clock:
  assumes "0 < M"
  shows "nondecreasing_clock (ticks_diff M) ts"
  unfolding nondecreasing_clock_def using assms
  by (induction ts) (simp_all add: ticks_diff_def)

lemma MockTime_clock:
  assumes "sorted ts"
  shows "nondecreasing_clock MockTime_ticks_diff ts"
  using assms by (simp add: nondecreasing_clock_def MockTime_ticks_diff_def)

text \<open>
  C9: take any finite run of \<^verbatim>\<open>start()\<close> and \<^verbatim>\<open>stop()\<close> calls from a stopped
  stopwatch, under a clock that does not run backwards as the tick difference measures
  it. Of two states of the run in which the stopwatch is stopped, the later one never
  reports less elapsed time than the earlier one, whenever each is asked.
\<close>

theorem elapsed_monotone:
  assumes "nondecreasing_clock td (map snd cs)"
      and "\<not> running self"
      and "i \<le> j" and "j < length (states td self cs)"
      and "\<not> running (states td self cs ! i)" and "\<not> running (states td self cs ! j)"
  shows "get_elapsed_time td now (states td self cs ! i)
           \<le> get_elapsed_time td now' (states td self cs ! j)"
proof -
  have "segment_ok td self (map snd cs)" using assms(2) by (simp add: segment_ok_def)
  with assms(1)
  have "total_elapsed (states td self cs ! i) \<le> total_elapsed (states td self cs ! j)"
    using assms(3,4) by (rule states_monotone)
  with assms(5,6) show ?thesis by (simp add: get_elapsed_time_eq)
qed

theorem elapsed_monotone_witness:
  "nondecreasing_clock (ticks_diff 1024)
     (map snd [(Start, 1000), (Stop, 1014), (Start, 1020), (Stop, 5)])
   \<and> \<not> running Stopwatch_init
   \<and> (2::nat) \<le> 4
   \<and> 4 < length (states (ticks_diff 1024) Stopwatch_init
                  [(Start, 1000), (Stop, 1014), (Start, 1020), (Stop, 5)])
   \<and> \<not> running (states (ticks_diff 1024) Stopwatch_init
                  [(Start, 1000), (Stop, 1014), (Start, 1020), (Stop, 5)] ! 2)
   \<and> \<not> running (states (ticks_diff 1024) Stopwatch_init
                  [(Start, 1000), (Stop, 1014), (Start, 1020), (Stop, 5)] ! 4)
   \<and> get_elapsed_time (ticks_diff 1024) 6 (states (ticks_diff 1024) Stopwatch_init
         [(Start, 1000), (Stop, 1014), (Start, 1020), (Stop, 5)] ! 2) = 14
   \<and> get_elapsed_time (ticks_diff 1024) 7 (states (ticks_diff 1024) Stopwatch_init
         [(Start, 1000), (Stop, 1014), (Start, 1020), (Stop, 5)] ! 4) = 23
   \<and> get_elapsed_time (ticks_diff 1024) 6 (states (ticks_diff 1024) Stopwatch_init
         [(Start, 1000), (Stop, 1014), (Start, 1020), (Stop, 5)] ! 2)
       \<le> get_elapsed_time (ticks_diff 1024) 7 (states (ticks_diff 1024) Stopwatch_init
         [(Start, 1000), (Stop, 1014), (Start, 1020), (Stop, 5)] ! 4)"
proof -
  let ?cs = "[(Start, 1000), (Stop, 1014), (Start, 1020), (Stop, 5::int)]"
  let ?td = "ticks_diff 1024"
  have st: "states ?td Stopwatch_init ?cs =
      [\<lparr>start_time = 0, total_elapsed = 0, running = False\<rparr>,
       \<lparr>start_time = 1000, total_elapsed = 0, running = True\<rparr>,
       \<lparr>start_time = 1000, total_elapsed = 14, running = False\<rparr>,
       \<lparr>start_time = 1020, total_elapsed = 14, running = True\<rparr>,
       \<lparr>start_time = 1020, total_elapsed = 23, running = False\<rparr>]"
    by (simp add: fst_start fst_stop Stopwatch_init_def ticks_diff_def)
  have h1: "nondecreasing_clock ?td (map snd ?cs)"
    by (simp add: nondecreasing_clock_def ticks_diff_def)
  have h2: "\<not> running Stopwatch_init" by (simp add: Stopwatch_init_def)
  have h3: "(2::nat) \<le> 4" by simp
  have h4: "4 < length (states ?td Stopwatch_init ?cs)" by (simp add: length_states)
  have h5: "\<not> running (states ?td Stopwatch_init ?cs ! 2)" unfolding st by simp
  have h6: "\<not> running (states ?td Stopwatch_init ?cs ! 4)" unfolding st by simp
  have e2: "get_elapsed_time ?td 6 (states ?td Stopwatch_init ?cs ! 2) = 14"
    unfolding st by (simp add: get_elapsed_time_eq)
  have e4: "get_elapsed_time ?td 7 (states ?td Stopwatch_init ?cs ! 4) = 23"
    unfolding st by (simp add: get_elapsed_time_eq)
  from elapsed_monotone [OF h1 h2 h3 h4 h5 h6, of 6 7] h1 h2 h3 h4 h5 h6 e2 e4
  show ?thesis by blast
qed

end
